theory Spec2Isabelle
  imports Main
begin

section \<open>The chat todo list widget (chatTodoListWidget.ts)\<close>

subsection \<open>Data\<close>

text \<open>
  \<open>IChatTodo\<close> is declared in \<open>chatTodoListService\<close>; the widget reads only the
  two fields below, and takes the status as a plain string
  (\<open>getStatusIconClass(status: string)\<close>).
\<close>

record IChatTodo =
  title :: string
  status :: string

text \<open>
  The DOM nodes the widget builds: an element with its class list, its
  \<open>style.color\<close> (the empty string when never set) and its children, or a text node.
\<close>

datatype node =
  Element (classList: "string list") (style_color: string) (childNodes: "node list")
| Text string

text \<open>
  \<open>nls.localize(key, defaultMessage)\<close> comes from the host and is taken as a parameter.
\<close>

type_synonym localize = "string \<Rightarrow> string \<Rightarrow> string"

text \<open>
  What a listener of \<open>onDidChangeHeight\<close> finds when it is called: the \<open>style.display\<close>
  of the root node, of the clear-button container and of the list container, and the number
  of children of the list container. The emitter calls its listeners synchronously, so each
  \<open>fire()\<close> is recorded with the state at that moment.
\<close>

type_synonym heightChange = "string \<times> string \<times> string \<times> nat"

text \<open>
  The widget object, with the DOM nodes it keeps references to and the storage it reaches
  through \<open>chatTodoListService.getChatTodoListStorage()\<close>.
  The elements found with \<open>querySelector\<close> are optional (\<open>None\<close> when the query
  returns \<open>null\<close>), since the source guards both uses.
\<close>

record ChatTodoListWidget =
  isExpanded :: bool
  currentSessionId :: "string option"
  domNode_display :: string
  expandIcon_classList :: "string list option"
  expandoElement_ariaExpanded :: string
  titleElement_textContent :: "string option"
  clearButtonContainer_display :: string
  todoListContainer_display :: string
  todoListContainer_children :: "node list"
  todoListStorage :: "string \<rightharpoonup> IChatTodo list"
  onDidChangeHeight_fired :: "heightChange list"

subsection \<open>Host functions\<close>

text \<open>
  Modelled from the spec: the storage adapter (\<open>IChatTodoListStorage\<close>), which is not part of
  the widget's file. \<open>getTodoList\<close> returns the empty sequence for a session with no stored
  todos, and \<open>setTodoList\<close> replaces the session's list as a whole.
\<close>

definition getTodoList :: "(string \<rightharpoonup> IChatTodo list) \<Rightarrow> string \<Rightarrow> IChatTodo list" where
  "getTodoList storage sessionId = (case storage sessionId of None \<Rightarrow> [] | Some l \<Rightarrow> l)"

definition setTodoList ::
  "(string \<rightharpoonup> IChatTodo list) \<Rightarrow> string \<Rightarrow> IChatTodo list \<Rightarrow> (string \<rightharpoonup> IChatTodo list)" where
  "setTodoList storage sessionId todoList = storage(sessionId \<mapsto> todoList)"

text \<open>\<open>dom.$('.a.b')\<close> creates an element with the classes of the selector.\<close>

definition dom_dollar :: "string list \<Rightarrow> node" where
  "dom_dollar classes = Element classes [] []"

fun classList_add :: "string \<Rightarrow> string list \<Rightarrow> string list" where
  "classList_add c cs = (if c \<in> set cs then cs else cs @ [c])"

fun classList_toggle :: "string \<Rightarrow> bool \<Rightarrow> string list \<Rightarrow> string list" where
  "classList_toggle c force cs = (if force then classList_add c cs else removeAll c cs)"

fun node_classList_add :: "string \<Rightarrow> node \<Rightarrow> node" where
  "node_classList_add c (Element cs col ch) = Element (classList_add c cs) col ch"
| "node_classList_add c (Text t) = Text t"

fun set_style_color :: "string \<Rightarrow> node \<Rightarrow> node" where
  "set_style_color v (Element cs col ch) = Element cs v ch"
| "set_style_color v (Text t) = Text t"

text \<open>Assigning \<open>textContent\<close> replaces the children by one text node, or by none for \<open>''\<close>.\<close>

fun set_textContent :: "string \<Rightarrow> node \<Rightarrow> node" where
  "set_textContent t (Element cs col ch) = Element cs col (if t = [] then [] else [Text t])"
| "set_textContent t (Text u) = Text t"

fun appendChild :: "node \<Rightarrow> node \<Rightarrow> node" where
  "appendChild (Element cs col ch) child = Element cs col (ch @ [child])"
| "appendChild (Text t) child = Text t"

text \<open>The decimal digits of a number, as a template literal prints \<open>index + 1\<close>.\<close>

definition digit_char :: "nat \<Rightarrow> char" where
  "digit_char d = ''0123456789'' ! d"

function number_toString :: "nat \<Rightarrow> string" where
  "number_toString n =
     (if n < 10 then [digit_char n] else number_toString (n div 10) @ [digit_char (n mod 10)])"
  by pat_completeness auto
termination
  by (relation "measure id") auto

declare number_toString.simps [simp del]

text \<open>
  The decimal numeral of a number, as the label \<open><i+1>\<close> is read: a non-empty string of
  the digits \<open>0\<close> to \<open>9\<close> with no leading zero, whose value in base ten is the number.
  This is stated apart from \<open>number_toString\<close>, to compare the two.
\<close>

definition digit_value :: "char \<Rightarrow> nat" where
  "digit_value c = of_char c - 48"

definition decimal_value :: "string \<Rightarrow> nat" where
  "decimal_value s = foldl (\<lambda>a c. 10 * a + digit_value c) 0 s"

definition is_decimal_numeral :: "nat \<Rightarrow> string \<Rightarrow> bool" where
  "is_decimal_numeral n s =
     (s \<noteq> [] \<and> list_all (\<lambda>c. c \<in> set ''0123456789'') s \<and> hd s \<noteq> CHR ''0''
      \<and> decimal_value s = n)"

definition boolean_toString :: "bool \<Rightarrow> string" where
  "boolean_toString b = (if b then ''true'' else ''false'')"

text \<open>Truthiness of a \<open>string | undefined\<close>: \<open>undefined\<close> and the empty string are falsy.\<close>

fun truthy :: "string option \<Rightarrow> bool" where
  "truthy None = False"
| "truthy (Some s) = (s \<noteq> [])"

subsection \<open>The widget's methods\<close>

definition observe :: "ChatTodoListWidget \<Rightarrow> heightChange" where
  "observe w = (domNode_display w, clearButtonContainer_display w,
                todoListContainer_display w, length (todoListContainer_children w))"

definition fire :: "ChatTodoListWidget \<Rightarrow> ChatTodoListWidget" where
  "fire w = w\<lparr>onDidChangeHeight_fired := onDidChangeHeight_fired w @ [observe w]\<rparr>"

definition getStatusIconClass :: "string \<Rightarrow> string" where
  "getStatusIconClass st =
     (if st = ''completed'' then ''codicon-check''
      else if st = ''in-progress'' then ''codicon-record''
      else ''codicon-circle-large-outline'')"

definition getStatusIconColor :: "string \<Rightarrow> string" where
  "getStatusIconColor st =
     (if st = ''completed'' then ''var(--vscode-charts-green)''
      else if st = ''in-progress'' then ''var(--vscode-charts-blue)''
      else ''var(--vscode-foreground)'')"

text \<open>The body of the \<open>forEach\<close> callback: the item node built for one todo.\<close>

definition todoElement :: "nat \<Rightarrow> IChatTodo \<Rightarrow> node" where
  "todoElement index todo =
     (let todoElement = dom_dollar [''todo-item''];
          statusIcon = dom_dollar [''todo-status-icon'', ''codicon''];
          statusIcon = node_classList_add (getStatusIconClass (status todo)) statusIcon;
          statusIcon = set_style_color (getStatusIconColor (status todo)) statusIcon;
          todoContent = dom_dollar [''todo-content''];
          titleElement = dom_dollar [''todo-title''];
          titleElement = set_textContent (number_toString (index + 1) @ ''. '' @ title todo) titleElement;
          todoContent = appendChild todoContent titleElement;
          todoElement = appendChild todoElement statusIcon;
          todoElement = appendChild todoElement todoContent
      in todoElement)"

text \<open>\<open>todoList.forEach((todo, index) => ...)\<close>, appending to the list container.\<close>

fun forEach_todo :: "nat \<Rightarrow> IChatTodo list \<Rightarrow> node list \<Rightarrow> node list" where
  "forEach_todo index [] container = container"
| "forEach_todo index (todo # rest) container =
     forEach_todo (Suc index) rest (container @ [todoElement index todo])"

definition renderTodoList :: "localize \<Rightarrow> IChatTodo list \<Rightarrow> ChatTodoListWidget \<Rightarrow> ChatTodoListWidget" where
  "renderTodoList loc todoList w =
     (let w = w\<lparr>todoListContainer_children := []\<rparr>;
          w = (case titleElement_textContent w of
                 None \<Rightarrow> w
               | Some _ \<Rightarrow> w\<lparr>titleElement_textContent := Some (loc ''chat.todoList.title'' ''Tasks'')\<rparr>)
      in w\<lparr>todoListContainer_children := forEach_todo 0 todoList (todoListContainer_children w)\<rparr>)"

definition updateTodoDisplay :: "localize \<Rightarrow> ChatTodoListWidget \<Rightarrow> ChatTodoListWidget" where
  "updateTodoDisplay loc w =
     (if \<not> truthy (currentSessionId w) then
        fire (w\<lparr>domNode_display := ''none'', clearButtonContainer_display := ''none''\<rparr>)
      else
        let todoList = getTodoList (todoListStorage w) (the (currentSessionId w)) in
        fire (if length todoList > 0 then
                (renderTodoList loc todoList w)
                  \<lparr>domNode_display := ''block'', clearButtonContainer_display := ''flex''\<rparr>
              else
                w\<lparr>domNode_display := ''none'', clearButtonContainer_display := ''none''\<rparr>))"

definition updateSessionId :: "localize \<Rightarrow> string option \<Rightarrow> ChatTodoListWidget \<Rightarrow> ChatTodoListWidget" where
  "updateSessionId loc sessionId w = updateTodoDisplay loc (w\<lparr>currentSessionId := sessionId\<rparr>)"

definition toggleExpanded :: "ChatTodoListWidget \<Rightarrow> ChatTodoListWidget" where
  "toggleExpanded w =
     (let w = w\<lparr>isExpanded := \<not> isExpanded w\<rparr>;
          w = (case expandIcon_classList w of
                 None \<Rightarrow> w
               | Some cs \<Rightarrow> w\<lparr>expandIcon_classList :=
                   Some (classList_toggle ''codicon-chevron-right'' (\<not> isExpanded w)
                          (classList_toggle ''codicon-chevron-down'' (isExpanded w) cs))\<rparr>);
          w = w\<lparr>expandoElement_ariaExpanded := boolean_toString (isExpanded w)\<rparr>;
          w = w\<lparr>todoListContainer_display := (if isExpanded w then ''block'' else ''none'')\<rparr>
      in fire w)"

definition clearAllTodos :: "localize \<Rightarrow> ChatTodoListWidget \<Rightarrow> ChatTodoListWidget" where
  "clearAllTodos loc w =
     (if \<not> truthy (currentSessionId w) then w
      else updateTodoDisplay loc
             (w\<lparr>todoListStorage := setTodoList (todoListStorage w) (the (currentSessionId w)) []\<rparr>))"

text \<open>
  The \<open>height\<close> getter. \<open>offsetHeight\<close> is what the host's layout reports for the root
  node; it is taken as a parameter.
\<close>

definition height :: "int \<Rightarrow> ChatTodoListWidget \<Rightarrow> int" where
  "height offsetHeight w = (if domNode_display w = ''none'' then 0 else offsetHeight)"

text \<open>
  The constructor (\<open>createChatTodoWidget\<close> and \<open>createClearButton\<close>), given the storage the
  injected service holds. The clear-button container's \<open>style.display\<close> is not assigned
  there and stays the empty string.
\<close>

definition createChatTodoWidget :: "localize \<Rightarrow> (string \<rightharpoonup> IChatTodo list) \<Rightarrow> ChatTodoListWidget" where
  "createChatTodoWidget loc storage =
     \<lparr>isExpanded = True,
      currentSessionId = None,
      domNode_display = ''none'',
      expandIcon_classList =
        Some (classList_add (if True then ''codicon-chevron-down'' else ''codicon-chevron-right'')
               [''expand-icon'', ''codicon'']),
      expandoElement_ariaExpanded = ''true'',
      titleElement_textContent = Some (loc ''chat.todoList.title'' ''Tasks''),
      clearButtonContainer_display = [],
      todoListContainer_display = (if True then ''block'' else ''none''),
      todoListContainer_children = [],
      todoListStorage = storage,
      onDidChangeHeight_fired = []\<rparr>"

text \<open>
  The observable state, that is the view state and the storage contents: the widget without
  the record of the events fired so far.
\<close>

definition view_and_storage :: "ChatTodoListWidget \<Rightarrow> ChatTodoListWidget" where
  "view_and_storage w = w\<lparr>onDidChangeHeight_fired := []\<rparr>"

text \<open>Without a language pack \<open>localize\<close> returns the default message; used in the examples.\<close>

definition default_localize :: localize where
  "default_localize key message = message"

text \<open>The listeners the constructor registers.\<close>

definition expandoElement_click :: "ChatTodoListWidget \<Rightarrow> ChatTodoListWidget" where
  "expandoElement_click w = toggleExpanded w"

definition expandoElement_keydown :: "string \<Rightarrow> ChatTodoListWidget \<Rightarrow> ChatTodoListWidget" where
  "expandoElement_keydown key w = (if key = ''Enter'' \<or> key = '' '' then toggleExpanded w else w)"

definition clearButton_onDidClick :: "localize \<Rightarrow> ChatTodoListWidget \<Rightarrow> ChatTodoListWidget" where
  "clearButton_onDidClick loc w = clearAllTodos loc w"

text \<open>
  The states a widget can be in: built by the constructor, then driven by the host's
  \<open>updateSessionId\<close>, by the user's clicks and key presses, and by other parties replacing
  the storage's contents between two operations.
\<close>

inductive reachable :: "localize \<Rightarrow> ChatTodoListWidget \<Rightarrow> bool" for loc :: localize where
  r_create: "reachable loc (createChatTodoWidget loc storage)"
| r_session: "reachable loc w \<Longrightarrow> reachable loc (updateSessionId loc sessionId w)"
| r_click: "reachable loc w \<Longrightarrow> reachable loc (expandoElement_click w)"
| r_keydown: "reachable loc w \<Longrightarrow> reachable loc (expandoElement_keydown key w)"
| r_clear: "reachable loc w \<Longrightarrow> reachable loc (clearButton_onDidClick loc w)"
| r_storage: "reachable loc w \<Longrightarrow> reachable loc (w\<lparr>todoListStorage := storage\<rparr>)"

section \<open>Status presentation\<close>

text \<open>
  C3. The status mapping is total: \<open>completed\<close> gives the check glyph and the green token,
  \<open>in-progress\<close> the record glyph and the blue token, and \<open>not-started\<close> as well as every
  other string gives the circle outline and the foreground colour, the same pair as
  \<open>not-started\<close>.
\<close>

theorem status_mapping_total:
  "getStatusIconClass ''completed'' = ''codicon-check''
   \<and> getStatusIconColor ''completed'' = ''var(--vscode-charts-green)''
   \<and> getStatusIconClass ''in-progress'' = ''codicon-record''
   \<and> getStatusIconColor ''in-progress'' = ''var(--vscode-charts-blue)''
   \<and> getStatusIconClass ''not-started'' = ''codicon-circle-large-outline''
   \<and> getStatusIconColor ''not-started'' = ''var(--vscode-foreground)''
   \<and> (\<forall>st. st \<noteq> ''completed'' \<and> st \<noteq> ''in-progress'' \<longrightarrow>
          getStatusIconClass st = getStatusIconClass ''not-started''
        \<and> getStatusIconColor st = getStatusIconColor ''not-started'')"
  by (simp add: getStatusIconClass_def getStatusIconColor_def)

theorem status_mapping_total_witness:
  "''bogus'' \<noteq> ''completed'' \<and> ''bogus'' \<noteq> ''in-progress''
   \<and> getStatusIconClass ''bogus'' = ''codicon-circle-large-outline''
   \<and> getStatusIconColor ''bogus'' = ''var(--vscode-foreground)''"
  using status_mapping_total by simp

section \<open>Auxiliary facts\<close>

subsection \<open>Printing the index\<close>

text \<open>
  \<open>number_toString\<close> prints the decimal numeral: its output is a non-empty string of digits
  with no leading zero (for a positive number) whose value is the number, and it is the
  only such string.
\<close>

lemma digit_char_digit:
  "d < 10 \<Longrightarrow> digit_char d \<in> set ''0123456789'' \<and> digit_value (digit_char d) = d
     \<and> (0 < d \<longrightarrow> digit_char d \<noteq> CHR ''0'')"
proof -
  assume "d < 10"
  then have "d \<in> {0, 1, 2, 3, 4, 5, 6, 7, 8, 9}" by auto
  then show ?thesis by (auto simp add: digit_char_def digit_value_def)
qed

lemma digit_value_digit:
  "c \<in> set ''0123456789'' \<Longrightarrow> digit_value c < 10 \<and> digit_char (digit_value c) = c"
  by (auto simp add: digit_char_def digit_value_def)

lemma decimal_value_snoc:
  "decimal_value (s @ [c]) = 10 * decimal_value s + digit_value c"
  by (simp add: decimal_value_def)

lemma number_toString_nonempty:
  "number_toString n \<noteq> []"
  by (subst number_toString.simps) simp

lemma number_toString_digits:
  "list_all (\<lambda>c. c \<in> set ''0123456789'') (number_toString n)"
proof (induction n rule: number_toString.induct)
  case (1 n)
  show ?case
  proof (cases "n < 10")
    case True
    then show ?thesis
      using digit_char_digit [of n] by (subst number_toString.simps) simp
  next
    case False
    have m: "n mod 10 < 10" by simp
    show ?thesis
      using False 1 [OF False] digit_char_digit [OF m]
      by (subst number_toString.simps) simp
  qed
qed

lemma number_toString_no_leading_zero:
  "0 < n \<Longrightarrow> hd (number_toString n) \<noteq> CHR ''0''"
proof (induction n rule: number_toString.induct)
  case (1 n)
  show ?case
  proof (cases "n < 10")
    case True
    then show ?thesis
      using "1.prems" digit_char_digit [of n] by (subst number_toString.simps) simp
  next
    case False
    then have "0 < n div 10" by simp
    then have "hd (number_toString (n div 10)) \<noteq> CHR ''0''"
      using 1(1) [OF False] by simp
    then show ?thesis
      using False number_toString_nonempty [of "n div 10"]
      by (subst number_toString.simps) simp
  qed
qed

lemma number_toString_value:
  "decimal_value (number_toString n) = n"
proof (induction n rule: number_toString.induct)
  case (1 n)
  show ?case
  proof (cases "n < 10")
    case True
    then show ?thesis
      using digit_char_digit [of n]
      by (subst number_toString.simps) (simp add: decimal_value_def)
  next
    case False
    have m: "n mod 10 < 10" by simp
    show ?thesis
      using False 1 [OF False] digit_char_digit [OF m]
      by (subst number_toString.simps) (simp add: decimal_value_snoc)
  qed
qed

lemma foldl_decimal_ge:
  "a \<le> foldl (\<lambda>a c. 10 * a + digit_value c) a s"
proof (induction s arbitrary: a)
  case Nil
  show ?case by simp
next
  case (Cons c s)
  have "a \<le> 10 * a + digit_value c" by simp
  also have "\<dots> \<le> foldl (\<lambda>a c. 10 * a + digit_value c) (10 * a + digit_value c) s"
    by (rule Cons.IH)
  finally show ?case by simp
qed

lemma decimal_value_positive:
  assumes "s \<noteq> []" "list_all (\<lambda>c. c \<in> set ''0123456789'') s" "hd s \<noteq> CHR ''0''"
  shows "0 < decimal_value s"
proof -
  obtain c t where s: "s = c # t" using assms(1) by (cases s) auto
  have c: "c \<in> set ''0123456789''" "c \<noteq> CHR ''0''"
    using assms(2,3) s by simp_all
  then have "0 < digit_value c"
    by (auto simp add: digit_value_def)
  also have "digit_value c \<le> foldl (\<lambda>a c. 10 * a + digit_value c) (digit_value c) t"
    by (rule foldl_decimal_ge)
  finally show ?thesis by (simp add: decimal_value_def s)
qed

lemma number_toString_unique:
  "s \<noteq> [] \<Longrightarrow> list_all (\<lambda>c. c \<in> set ''0123456789'') s \<Longrightarrow> hd s \<noteq> CHR ''0'' \<Longrightarrow>
   number_toString (decimal_value s) = s"
proof (induction s rule: rev_induct)
  case Nil
  then show ?case by simp
next
  case (snoc x xs)
  have x: "digit_value x < 10" "digit_char (digit_value x) = x"
    using snoc.prems(2) digit_value_digit [of x] by simp_all
  show ?case
  proof (cases "xs = []")
    case True
    then show ?thesis
      using x by (subst number_toString.simps) (simp add: decimal_value_def)
  next
    case False
    have d: "list_all (\<lambda>c. c \<in> set ''0123456789'') xs" and h: "hd xs \<noteq> CHR ''0''"
      using snoc.prems False by simp_all
    have ih: "number_toString (decimal_value xs) = xs"
      using snoc.IH [OF False d h] .
    have pos: "0 < decimal_value xs"
      using decimal_value_positive [OF False d h] .
    have v: "decimal_value (xs @ [x]) = 10 * decimal_value xs + digit_value x"
      by (rule decimal_value_snoc)
    have "\<not> 10 * decimal_value xs + digit_value x < 10"
      using pos by simp
    moreover have "(10 * decimal_value xs + digit_value x) div 10 = decimal_value xs"
      using x(1) by simp
    moreover have "(10 * decimal_value xs + digit_value x) mod 10 = digit_value x"
      using x(1) by simp
    ultimately show ?thesis
      unfolding v
      by (subst number_toString.simps) (simp add: ih x(2))
  qed
qed

lemma number_toString_is_decimal_numeral:
  "0 < n \<Longrightarrow> is_decimal_numeral n s = (s = number_toString n)"
proof
  assume "is_decimal_numeral n s"
  then show "s = number_toString n"
    using number_toString_unique [of s] by (auto simp add: is_decimal_numeral_def)
next
  assume n: "0 < n" and s: "s = number_toString n"
  show "is_decimal_numeral n s"
    unfolding is_decimal_numeral_def s
  proof (intro conjI)
    show "number_toString n \<noteq> []"
      by (rule number_toString_nonempty)
    show "list_all (\<lambda>c. c \<in> set ''0123456789'') (number_toString n)"
      by (rule number_toString_digits)
    show "hd (number_toString n) \<noteq> CHR ''0''"
      using n by (rule number_toString_no_leading_zero)
    show "decimal_value (number_toString n) = n"
      by (rule number_toString_value)
  qed
qed

subsection \<open>The loop over the todo list\<close>

lemma forEach_todo_append:
  "forEach_todo k todos c = c @ forEach_todo k todos []"
proof (induction todos arbitrary: k c)
  case Nil
  show ?case by simp
next
  case (Cons t ts)
  have "forEach_todo k (t # ts) c = (c @ [todoElement k t]) @ forEach_todo (Suc k) ts []"
    using Cons.IH [of "Suc k" "c @ [todoElement k t]"] by simp
  also have "\<dots> = c @ forEach_todo k (t # ts) []"
    using Cons.IH [of "Suc k" "[todoElement k t]"] by simp
  finally show ?case .
qed

lemma forEach_todo_length:
  "length (forEach_todo k todos c) = length c + length todos"
  by (induction todos arbitrary: k c) auto

lemma forEach_todo_nth:
  "i < length todos \<Longrightarrow> forEach_todo k todos c ! (length c + i) = todoElement (k + i) (todos ! i)"
proof (induction todos arbitrary: k c i)
  case Nil
  then show ?case by simp
next
  case (Cons t ts)
  show ?case
  proof (cases i)
    case 0
    have "forEach_todo k (t # ts) c = (c @ [todoElement k t]) @ forEach_todo (Suc k) ts []"
      using forEach_todo_append [of "Suc k" ts "c @ [todoElement k t]"] by simp
    then show ?thesis using 0 by (simp add: nth_append)
  next
    case (Suc j)
    then have j: "j < length ts" using Cons.prems by simp
    have "forEach_todo (Suc k) ts (c @ [todoElement k t]) ! (length (c @ [todoElement k t]) + j)
          = todoElement (Suc k + j) (ts ! j)"
      using Cons.IH [OF j] .
    then show ?thesis using Suc by simp
  qed
qed

lemma todoElement_eq:
  "todoElement i todo =
     Element [''todo-item''] []
       [Element [''todo-status-icon'', ''codicon'', getStatusIconClass (status todo)]
                (getStatusIconColor (status todo)) [],
        Element [''todo-content''] []
          [Element [''todo-title''] [] [Text (number_toString (i + 1) @ ''. '' @ title todo)]]]"
  by (simp add: todoElement_def dom_dollar_def getStatusIconClass_def)

lemma renderTodoList_children:
  "todoListContainer_children (renderTodoList loc todoList w) = forEach_todo 0 todoList []"
  by (simp add: renderTodoList_def Let_def split: option.split)

subsection \<open>What each method leaves alone\<close>

lemma toggleExpanded_fields:
  "isExpanded (toggleExpanded w) = (\<not> isExpanded w)"
  "todoListContainer_display (toggleExpanded w) = (if isExpanded w then ''none'' else ''block'')"
  "expandoElement_ariaExpanded (toggleExpanded w) = boolean_toString (\<not> isExpanded w)"
  "titleElement_textContent (toggleExpanded w) = titleElement_textContent w"
  by (simp_all add: toggleExpanded_def fire_def Let_def split: option.split)

lemma updateTodoDisplay_fields:
  "isExpanded (updateTodoDisplay loc w) = isExpanded w"
  "todoListContainer_display (updateTodoDisplay loc w) = todoListContainer_display w"
  "expandoElement_ariaExpanded (updateTodoDisplay loc w) = expandoElement_ariaExpanded w"
  by (simp_all add: updateTodoDisplay_def fire_def renderTodoList_def Let_def split: option.split)

lemma updateTodoDisplay_title:
  "titleElement_textContent w = Some (loc ''chat.todoList.title'' ''Tasks'') \<Longrightarrow>
   titleElement_textContent (updateTodoDisplay loc w) = Some (loc ''chat.todoList.title'' ''Tasks'')"
  by (simp add: updateTodoDisplay_def fire_def renderTodoList_def Let_def)

lemma updateTodoDisplay_displays:
  "domNode_display (updateTodoDisplay loc w) =
     (if truthy (currentSessionId w) \<and> getTodoList (todoListStorage w) (the (currentSessionId w)) \<noteq> []
      then ''block'' else ''none'')"
  "clearButtonContainer_display (updateTodoDisplay loc w) =
     (if truthy (currentSessionId w) \<and> getTodoList (todoListStorage w) (the (currentSessionId w)) \<noteq> []
      then ''flex'' else ''none'')"
  by (simp_all add: updateTodoDisplay_def fire_def Let_def)

lemma updateTodoDisplay_hidden:
  "getTodoList (todoListStorage w) (the (currentSessionId w)) = [] \<Longrightarrow>
   updateTodoDisplay loc w =
     fire (w\<lparr>domNode_display := ''none'', clearButtonContainer_display := ''none''\<rparr>)"
  by (simp add: updateTodoDisplay_def)

lemma clearAllTodos_truthy:
  "truthy (currentSessionId w) \<Longrightarrow>
   clearAllTodos loc w =
     fire (w\<lparr>todoListStorage := (todoListStorage w)(the (currentSessionId w) \<mapsto> []),
             domNode_display := ''none'', clearButtonContainer_display := ''none''\<rparr>)"
  by (simp add: clearAllTodos_def setTodoList_def updateTodoDisplay_hidden getTodoList_def)

lemma clearAllTodos_fields:
  "isExpanded (clearAllTodos loc w) = isExpanded w"
  "todoListContainer_display (clearAllTodos loc w) = todoListContainer_display w"
  "expandoElement_ariaExpanded (clearAllTodos loc w) = expandoElement_ariaExpanded w"
  by (simp_all add: clearAllTodos_def updateTodoDisplay_fields)

lemma clearAllTodos_title:
  "titleElement_textContent w = Some (loc ''chat.todoList.title'' ''Tasks'') \<Longrightarrow>
   titleElement_textContent (clearAllTodos loc w) = Some (loc ''chat.todoList.title'' ''Tasks'')"
  by (simp add: clearAllTodos_def updateTodoDisplay_title)

lemma clearAllTodos_twice:
  "view_and_storage (clearAllTodos loc (clearAllTodos loc w)) = view_and_storage (clearAllTodos loc w)"
proof (cases "truthy (currentSessionId w)")
  case False
  then show ?thesis by (simp add: clearAllTodos_def)
next
  case True
  then have t2: "truthy (currentSessionId (clearAllTodos loc w))"
    by (simp add: clearAllTodos_truthy fire_def)
  show ?thesis
    unfolding clearAllTodos_truthy [OF t2]
    unfolding clearAllTodos_truthy [OF True]
    by (simp add: fire_def view_and_storage_def)
qed

subsection \<open>An invariant of the reachable states\<close>

text \<open>
  In every state the widget can be in, the header title holds the localized text the
  constructor gave it, and the list container's \<open>display\<close> and the \<open>aria-expanded\<close>
  attribute agree with the \<open>_isExpanded\<close> flag.
\<close>

lemma reachable_invariant:
  "reachable loc w \<Longrightarrow>
     titleElement_textContent w = Some (loc ''chat.todoList.title'' ''Tasks'')
     \<and> todoListContainer_display w = (if isExpanded w then ''block'' else ''none'')
     \<and> expandoElement_ariaExpanded w = boolean_toString (isExpanded w)"
proof (induction rule: reachable.induct)
  case (r_create storage)
  show ?case by (simp add: createChatTodoWidget_def boolean_toString_def)
next
  case (r_session w sessionId)
  then show ?case
    by (simp add: updateSessionId_def updateTodoDisplay_fields updateTodoDisplay_title)
next
  case (r_click w)
  then show ?case by (simp add: expandoElement_click_def toggleExpanded_fields)
next
  case (r_keydown w key)
  then show ?case by (simp add: expandoElement_keydown_def toggleExpanded_fields)
next
  case (r_clear w)
  then show ?case
    by (simp add: clearButton_onDidClick_def clearAllTodos_fields clearAllTodos_title)
next
  case (r_storage w storage)
  then show ?case by simp
qed

lemma toggleExpanded_funpow_flag:
  "isExpanded ((toggleExpanded ^^ n) w) = (if even n then isExpanded w else \<not> isExpanded w)"
  by (induction n) (simp_all add: toggleExpanded_fields)

lemma toggleExpanded_funpow_view:
  "todoListContainer_display w = (if isExpanded w then ''block'' else ''none'') \<Longrightarrow>
   expandoElement_ariaExpanded w = boolean_toString (isExpanded w) \<Longrightarrow>
   todoListContainer_display ((toggleExpanded ^^ n) w)
     = (if isExpanded ((toggleExpanded ^^ n) w) then ''block'' else ''none'')
   \<and> expandoElement_ariaExpanded ((toggleExpanded ^^ n) w)
     = boolean_toString (isExpanded ((toggleExpanded ^^ n) w))"
  by (induction n) (simp_all add: toggleExpanded_fields)

section \<open>Refresh\<close>

text \<open>
  C1, as the code has it. After a refresh (\<open>updateTodoDisplay\<close>) the root node is shown
  (its \<open>display\<close> is not \<open>none\<close>) exactly when \<open>currentSessionId\<close> is defined, is not
  the empty string, and the list the storage holds for that session is not empty; the
  clear-control container is shown exactly when the root node is. The guard
  \<open>!this._currentSessionId\<close> treats the empty string like \<open>undefined\<close>.
\<close>

theorem updateTodoDisplay_visible:
  "(domNode_display (updateTodoDisplay loc w) \<noteq> ''none'') =
     (\<exists>sessionId. currentSessionId w = Some sessionId \<and> sessionId \<noteq> []
        \<and> getTodoList (todoListStorage w) sessionId \<noteq> [])
   \<and> (clearButtonContainer_display (updateTodoDisplay loc w) \<noteq> ''none'') =
       (domNode_display (updateTodoDisplay loc w) \<noteq> ''none'')"
proof (cases "currentSessionId w")
  case None
  then show ?thesis by (simp add: updateTodoDisplay_displays)
next
  case (Some sid)
  then show ?thesis by (simp add: updateTodoDisplay_displays)
qed

text \<open>
  C1 as stated fails for the session identifier \<open>''\<close>: the identifier is defined and the
  list stored under it is not empty, yet the refresh hides the widget.
\<close>

theorem updateTodoDisplay_empty_session_counterexample:
  "currentSessionId
     ((createChatTodoWidget default_localize
         [[] \<mapsto> [\<lparr>title = ''Write spec'', status = ''completed''\<rparr>]])
      \<lparr>currentSessionId := Some []\<rparr>) = Some []
   \<and> getTodoList (todoListStorage
        ((createChatTodoWidget default_localize
            [[] \<mapsto> [\<lparr>title = ''Write spec'', status = ''completed''\<rparr>]])
         \<lparr>currentSessionId := Some []\<rparr>)) []
       = [\<lparr>title = ''Write spec'', status = ''completed''\<rparr>]
   \<and> domNode_display (updateTodoDisplay default_localize
        ((createChatTodoWidget default_localize
            [[] \<mapsto> [\<lparr>title = ''Write spec'', status = ''completed''\<rparr>]])
         \<lparr>currentSessionId := Some []\<rparr>)) = ''none''"
  by (simp add: updateTodoDisplay_def createChatTodoWidget_def getTodoList_def fire_def)

text \<open>
  C10. A refresh that hides the widget, because there is no session or because the fetched
  list is empty, leaves the item nodes rendered before in the list container. A refresh that
  shows the widget replaces them by the items of the fetched, non-empty list. Clearing all
  todos ends in the hiding path and leaves the item nodes too.
\<close>

theorem hidden_refresh_keeps_items:
  "(domNode_display (updateTodoDisplay loc w) = ''none'' \<longrightarrow>
      todoListContainer_children (updateTodoDisplay loc w) = todoListContainer_children w)
   \<and> (\<not> truthy (currentSessionId w) \<or> getTodoList (todoListStorage w) (the (currentSessionId w)) = [] \<longrightarrow>
      domNode_display (updateTodoDisplay loc w) = ''none''
      \<and> todoListContainer_children (updateTodoDisplay loc w) = todoListContainer_children w)
   \<and> (domNode_display (updateTodoDisplay loc w) \<noteq> ''none'' \<longrightarrow>
      todoListContainer_children (updateTodoDisplay loc w)
        = forEach_todo 0 (getTodoList (todoListStorage w) (the (currentSessionId w))) []
      \<and> getTodoList (todoListStorage w) (the (currentSessionId w)) \<noteq> [])
   \<and> todoListContainer_children (clearAllTodos loc w) = todoListContainer_children w"
proof -
  have hid: "\<not> truthy (currentSessionId w) \<or> getTodoList (todoListStorage w) (the (currentSessionId w)) = []
      \<Longrightarrow> todoListContainer_children (updateTodoDisplay loc w) = todoListContainer_children w"
    by (auto simp add: updateTodoDisplay_def fire_def)
  have shown: "truthy (currentSessionId w) \<and> getTodoList (todoListStorage w) (the (currentSessionId w)) \<noteq> []
      \<Longrightarrow> todoListContainer_children (updateTodoDisplay loc w)
        = forEach_todo 0 (getTodoList (todoListStorage w) (the (currentSessionId w))) []"
    by (simp add: updateTodoDisplay_def fire_def Let_def renderTodoList_children)
  have clear: "todoListContainer_children (clearAllTodos loc w) = todoListContainer_children w"
  proof (cases "truthy (currentSessionId w)")
    case False
    then show ?thesis by (simp add: clearAllTodos_def)
  next
    case True
    then show ?thesis by (simp add: clearAllTodos_truthy fire_def)
  qed
  show ?thesis
    using hid shown clear
    by (simp add: updateTodoDisplay_displays split: if_splits)
qed

text \<open>
  Session \<open>S1\<close> with one todo is shown, then the session is set to \<open>undefined\<close>: the
  widget is hidden and the item node is still in the list container.
\<close>

theorem hidden_refresh_keeps_items_witness:
  "domNode_display (updateTodoDisplay default_localize
      ((updateSessionId default_localize (Some ''S1'')
         (createChatTodoWidget default_localize
            [''S1'' \<mapsto> [\<lparr>title = ''Review'', status = ''in-progress''\<rparr>]]))
       \<lparr>currentSessionId := None\<rparr>)) = ''none''
   \<and> todoListContainer_children (updateTodoDisplay default_localize
      ((updateSessionId default_localize (Some ''S1'')
         (createChatTodoWidget default_localize
            [''S1'' \<mapsto> [\<lparr>title = ''Review'', status = ''in-progress''\<rparr>]]))
       \<lparr>currentSessionId := None\<rparr>))
     = [Element [''todo-item''] []
          [Element [''todo-status-icon'', ''codicon'', ''codicon-record'']
                   ''var(--vscode-charts-blue)'' [],
           Element [''todo-content''] []
             [Element [''todo-title''] [] [Text ''1. Review'']]]]"
proof -
  have d: "domNode_display (updateTodoDisplay default_localize
      ((updateSessionId default_localize (Some ''S1'')
         (createChatTodoWidget default_localize
            [''S1'' \<mapsto> [\<lparr>title = ''Review'', status = ''in-progress''\<rparr>]]))
       \<lparr>currentSessionId := None\<rparr>)) = ''none''"
    by (simp add: updateTodoDisplay_displays)
  have c: "todoListContainer_children
      ((updateSessionId default_localize (Some ''S1'')
         (createChatTodoWidget default_localize
            [''S1'' \<mapsto> [\<lparr>title = ''Review'', status = ''in-progress''\<rparr>]]))
       \<lparr>currentSessionId := None\<rparr>)
     = [Element [''todo-item''] []
          [Element [''todo-status-icon'', ''codicon'', ''codicon-record'']
                   ''var(--vscode-charts-blue)'' [],
           Element [''todo-content''] []
             [Element [''todo-title''] [] [Text ''1. Review'']]]]"
    by (simp add: updateSessionId_def updateTodoDisplay_def fire_def Let_def renderTodoList_children
          createChatTodoWidget_def getTodoList_def todoElement_def dom_dollar_def
          getStatusIconClass_def getStatusIconColor_def number_toString.simps digit_char_def)
  show ?thesis
    using hidden_refresh_keeps_items [of default_localize
      "(updateSessionId default_localize (Some ''S1'')
         (createChatTodoWidget default_localize
            [''S1'' \<mapsto> [\<lparr>title = ''Review'', status = ''in-progress''\<rparr>]]))
       \<lparr>currentSessionId := None\<rparr>"]
    by (simp add: d c)
qed

section \<open>Clearing all todos\<close>

text \<open>
  C2, as the code has it. \<open>clearAllTodos\<close> changes nothing (no storage write, no refresh,
  no event) when \<open>currentSessionId\<close> is \<open>undefined\<close> or the empty string. For any other
  identifier it stores the empty list under that identifier and then refreshes, which hides
  the widget and fires one height change. Called twice in a row it leaves the same view
  state and storage as called once.
\<close>

theorem clearAllTodos_effect:
  "(\<not> truthy (currentSessionId w) \<longrightarrow> clearAllTodos loc w = w)
   \<and> (\<forall>sessionId. currentSessionId w = Some sessionId \<and> sessionId \<noteq> [] \<longrightarrow>
         clearAllTodos loc w =
           updateTodoDisplay loc (w\<lparr>todoListStorage := (todoListStorage w)(sessionId \<mapsto> [])\<rparr>)
       \<and> todoListStorage (clearAllTodos loc w) = (todoListStorage w)(sessionId \<mapsto> [])
       \<and> getTodoList (todoListStorage (clearAllTodos loc w)) sessionId = []
       \<and> domNode_display (clearAllTodos loc w) = ''none''
       \<and> clearButtonContainer_display (clearAllTodos loc w) = ''none''
       \<and> onDidChangeHeight_fired (clearAllTodos loc w) =
           onDidChangeHeight_fired w @ [observe (clearAllTodos loc w)])
   \<and> view_and_storage (clearAllTodos loc (clearAllTodos loc w)) = view_and_storage (clearAllTodos loc w)"
proof (intro conjI impI allI)
  assume "\<not> truthy (currentSessionId w)"
  then show "clearAllTodos loc w = w" by (simp add: clearAllTodos_def)
next
  show "view_and_storage (clearAllTodos loc (clearAllTodos loc w)) = view_and_storage (clearAllTodos loc w)"
    by (rule clearAllTodos_twice)
next
  fix sessionId
  assume a: "currentSessionId w = Some sessionId \<and> sessionId \<noteq> []"
  then have t: "truthy (currentSessionId w)" and s: "the (currentSessionId w) = sessionId"
    by simp_all
  show "clearAllTodos loc w =
          updateTodoDisplay loc (w\<lparr>todoListStorage := (todoListStorage w)(sessionId \<mapsto> [])\<rparr>)"
    using a by (simp add: clearAllTodos_def setTodoList_def)
  show "todoListStorage (clearAllTodos loc w) = (todoListStorage w)(sessionId \<mapsto> [])"
    using s by (simp add: clearAllTodos_truthy [OF t] fire_def)
  show "getTodoList (todoListStorage (clearAllTodos loc w)) sessionId = []"
    using s by (simp add: clearAllTodos_truthy [OF t] fire_def getTodoList_def)
  show "domNode_display (clearAllTodos loc w) = ''none''"
    by (simp add: clearAllTodos_truthy [OF t] fire_def)
  show "clearButtonContainer_display (clearAllTodos loc w) = ''none''"
    by (simp add: clearAllTodos_truthy [OF t] fire_def)
  show "onDidChangeHeight_fired (clearAllTodos loc w) =
          onDidChangeHeight_fired w @ [observe (clearAllTodos loc w)]"
    by (simp add: clearAllTodos_truthy [OF t] fire_def observe_def)
qed

text \<open>
  Without a session the stored list of \<open>S1\<close> stays; with the session \<open>S1\<close> it is replaced
  by the empty list and the widget is hidden.
\<close>

theorem clearAllTodos_effect_witness:
  "\<not> truthy (currentSessionId (createChatTodoWidget default_localize
        [''S1'' \<mapsto> [\<lparr>title = ''Write spec'', status = ''completed''\<rparr>]]))
   \<and> todoListStorage (clearAllTodos default_localize (createChatTodoWidget default_localize
        [''S1'' \<mapsto> [\<lparr>title = ''Write spec'', status = ''completed''\<rparr>]])) ''S1''
       = Some [\<lparr>title = ''Write spec'', status = ''completed''\<rparr>]
   \<and> currentSessionId ((createChatTodoWidget default_localize
        [''S1'' \<mapsto> [\<lparr>title = ''Write spec'', status = ''completed''\<rparr>]])
        \<lparr>currentSessionId := Some ''S1''\<rparr>) = Some ''S1''
   \<and> ''S1'' \<noteq> []
   \<and> todoListStorage (clearAllTodos default_localize ((createChatTodoWidget default_localize
        [''S1'' \<mapsto> [\<lparr>title = ''Write spec'', status = ''completed''\<rparr>]])
        \<lparr>currentSessionId := Some ''S1''\<rparr>)) ''S1'' = Some []
   \<and> domNode_display (clearAllTodos default_localize ((createChatTodoWidget default_localize
        [''S1'' \<mapsto> [\<lparr>title = ''Write spec'', status = ''completed''\<rparr>]])
        \<lparr>currentSessionId := Some ''S1''\<rparr>)) = ''none''"
proof -
  let ?w = "createChatTodoWidget default_localize
        [''S1'' \<mapsto> [\<lparr>title = ''Write spec'', status = ''completed''\<rparr>]]"
  let ?v = "?w\<lparr>currentSessionId := Some ''S1''\<rparr>"
  have a: "\<not> truthy (currentSessionId ?w)"
    by (simp add: createChatTodoWidget_def)
  have b: "currentSessionId ?v = Some ''S1'' \<and> ''S1'' \<noteq> []"
    by simp
  have s: "todoListStorage ?w ''S1'' = Some [\<lparr>title = ''Write spec'', status = ''completed''\<rparr>]"
    by (simp add: createChatTodoWidget_def)
  have "\<not> truthy (currentSessionId ?w) \<longrightarrow> clearAllTodos default_localize ?w = ?w"
    using clearAllTodos_effect [of ?w default_localize] by (rule conjunct1)
  then have noop: "clearAllTodos default_localize ?w = ?w"
    using a by simp
  have "\<forall>sessionId. currentSessionId ?v = Some sessionId \<and> sessionId \<noteq> [] \<longrightarrow>
         clearAllTodos default_localize ?v =
           updateTodoDisplay default_localize (?v\<lparr>todoListStorage := (todoListStorage ?v)(sessionId \<mapsto> [])\<rparr>)
       \<and> todoListStorage (clearAllTodos default_localize ?v) = (todoListStorage ?v)(sessionId \<mapsto> [])
       \<and> getTodoList (todoListStorage (clearAllTodos default_localize ?v)) sessionId = []
       \<and> domNode_display (clearAllTodos default_localize ?v) = ''none''
       \<and> clearButtonContainer_display (clearAllTodos default_localize ?v) = ''none''
       \<and> onDidChangeHeight_fired (clearAllTodos default_localize ?v) =
           onDidChangeHeight_fired ?v @ [observe (clearAllTodos default_localize ?v)]"
    using clearAllTodos_effect [of ?v default_localize] by (rule conjunct1 [OF conjunct2])
  then have wr: "todoListStorage (clearAllTodos default_localize ?v) = (todoListStorage ?v)(''S1'' \<mapsto> [])
       \<and> domNode_display (clearAllTodos default_localize ?v) = ''none''"
    using b by blast
  show ?thesis
    using a b s by (simp add: noop wr)
qed

text \<open>
  C2 as stated fails for the session identifier \<open>''\<close>: the identifier is defined, yet
  \<open>clearAllTodos\<close> writes nothing (the list stored under it stays) and fires no event.
\<close>

theorem clearAllTodos_empty_session_counterexample:
  "currentSessionId ((createChatTodoWidget default_localize
        [[] \<mapsto> [\<lparr>title = ''Write spec'', status = ''completed''\<rparr>]])
        \<lparr>currentSessionId := Some []\<rparr>) = Some []
   \<and> todoListStorage (clearAllTodos default_localize ((createChatTodoWidget default_localize
        [[] \<mapsto> [\<lparr>title = ''Write spec'', status = ''completed''\<rparr>]])
        \<lparr>currentSessionId := Some []\<rparr>)) []
       = Some [\<lparr>title = ''Write spec'', status = ''completed''\<rparr>]
   \<and> onDidChangeHeight_fired (clearAllTodos default_localize ((createChatTodoWidget default_localize
        [[] \<mapsto> [\<lparr>title = ''Write spec'', status = ''completed''\<rparr>]])
        \<lparr>currentSessionId := Some []\<rparr>)) = []"
  by (simp add: clearAllTodos_def createChatTodoWidget_def)

section \<open>Rendering the list\<close>

text \<open>
  C4. \<open>renderTodoList\<close> leaves one item node per record in the list container, in the
  order of the input list: the node at position \<open>i\<close> (from 0) holds the status icon with the
  glyph class and the colour the status mapping gives for the record's status, and the
  text label made of the numeral of \<open>i + 1\<close>, a full stop, a space and the record's
  title. The numeral printed for \<open>i + 1\<close> is its decimal numeral and no other string: the
  digits \<open>0\<close> to \<open>9\<close> only, no leading zero, and the value \<open>i + 1\<close>.
\<close>

theorem renderTodoList_items:
  "length (todoListContainer_children (renderTodoList loc todoList w)) = length todoList
   \<and> (\<forall>i < length todoList.
        todoListContainer_children (renderTodoList loc todoList w) ! i =
          Element [''todo-item''] []
            [Element [''todo-status-icon'', ''codicon'', getStatusIconClass (status (todoList ! i))]
                     (getStatusIconColor (status (todoList ! i))) [],
             Element [''todo-content''] []
               [Element [''todo-title''] []
                  [Text (number_toString (i + 1) @ ''. '' @ title (todoList ! i))]]]
        \<and> (\<forall>s. is_decimal_numeral (i + 1) s = (s = number_toString (i + 1))))"
proof (intro conjI allI impI)
  show "length (todoListContainer_children (renderTodoList loc todoList w)) = length todoList"
    by (simp add: renderTodoList_children forEach_todo_length)
next
  fix i assume i: "i < length todoList"
  have "forEach_todo 0 todoList [] ! (length ([] :: node list) + i) = todoElement (0 + i) (todoList ! i)"
    using forEach_todo_nth [OF i] .
  then show "todoListContainer_children (renderTodoList loc todoList w) ! i =
          Element [''todo-item''] []
            [Element [''todo-status-icon'', ''codicon'', getStatusIconClass (status (todoList ! i))]
                     (getStatusIconColor (status (todoList ! i))) [],
             Element [''todo-content''] []
               [Element [''todo-title''] []
                  [Text (number_toString (i + 1) @ ''. '' @ title (todoList ! i))]]]"
    by (simp add: renderTodoList_children todoElement_eq)
next
  fix i s
  show "is_decimal_numeral (i + 1) s = (s = number_toString (i + 1))"
    by (rule number_toString_is_decimal_numeral) simp
qed

text \<open>
  The two records of session \<open>S1\<close> in the specification's scenario give two items, the
  second labelled \<open>2. Review\<close> with the record glyph in blue; the twelfth of twelve records
  is labelled \<open>12. Review\<close>, and \<open>12\<close> is the decimal numeral of twelve where \<open>2\<close>,
  \<open>012\<close> and \<open>:\<close> are not.
\<close>

theorem renderTodoList_items_witness:
  "(1::nat) < length [\<lparr>title = ''Write spec'', status = ''completed''\<rparr>,
                     \<lparr>title = ''Review'', status = ''in-progress''\<rparr>]
   \<and> length (todoListContainer_children (renderTodoList default_localize
        [\<lparr>title = ''Write spec'', status = ''completed''\<rparr>,
         \<lparr>title = ''Review'', status = ''in-progress''\<rparr>]
        (createChatTodoWidget default_localize Map.empty))) = 2
   \<and> todoListContainer_children (renderTodoList default_localize
        [\<lparr>title = ''Write spec'', status = ''completed''\<rparr>,
         \<lparr>title = ''Review'', status = ''in-progress''\<rparr>]
        (createChatTodoWidget default_localize Map.empty)) ! 1 =
       Element [''todo-item''] []
         [Element [''todo-status-icon'', ''codicon'', ''codicon-record'']
                  ''var(--vscode-charts-blue)'' [],
          Element [''todo-content''] []
            [Element [''todo-title''] [] [Text ''2. Review'']]]
   \<and> (11::nat) < length (replicate 12 \<lparr>title = ''Review'', status = ''not-started''\<rparr>)
   \<and> todoListContainer_children (renderTodoList default_localize
        (replicate 12 \<lparr>title = ''Review'', status = ''not-started''\<rparr>)
        (createChatTodoWidget default_localize Map.empty)) ! 11 =
       Element [''todo-item''] []
         [Element [''todo-status-icon'', ''codicon'', ''codicon-circle-large-outline'']
                  ''var(--vscode-foreground)'' [],
          Element [''todo-content''] []
            [Element [''todo-title''] [] [Text ''12. Review'']]]
   \<and> is_decimal_numeral 12 ''12''
   \<and> \<not> is_decimal_numeral 12 ''2''
   \<and> \<not> is_decimal_numeral 12 ''012''
   \<and> \<not> is_decimal_numeral 12 '':''"
proof -
  let ?w = "createChatTodoWidget default_localize Map.empty"
  let ?a = "[\<lparr>title = ''Write spec'', status = ''completed''\<rparr>,
             \<lparr>title = ''Review'', status = ''in-progress''\<rparr>]"
  let ?b = "replicate 12 \<lparr>title = ''Review'', status = ''not-started''\<rparr>"
  have n2: "number_toString 2 = ''2''"
    by (simp add: number_toString.simps digit_char_def)
  have n2': "number_toString (Suc (Suc 0)) = ''2''"
    using n2 by (simp add: numeral_2_eq_2)
  have n12: "number_toString 12 = ''12''"
    by (simp add: number_toString.simps digit_char_def)
  have s: "getStatusIconClass ''in-progress'' = ''codicon-record''"
          "getStatusIconColor ''in-progress'' = ''var(--vscode-charts-blue)''"
          "getStatusIconClass ''not-started'' = ''codicon-circle-large-outline''"
          "getStatusIconColor ''not-started'' = ''var(--vscode-foreground)''"
    by (simp_all add: getStatusIconClass_def getStatusIconColor_def)
  have a: "length (todoListContainer_children (renderTodoList default_localize ?a ?w)) = length ?a"
    using renderTodoList_items [of default_localize ?a ?w] by (rule conjunct1)
  have "\<forall>i < length ?a.
        todoListContainer_children (renderTodoList default_localize ?a ?w) ! i =
          Element [''todo-item''] []
            [Element [''todo-status-icon'', ''codicon'', getStatusIconClass (status (?a ! i))]
                     (getStatusIconColor (status (?a ! i))) [],
             Element [''todo-content''] []
               [Element [''todo-title''] []
                  [Text (number_toString (i + 1) @ ''. '' @ title (?a ! i))]]]
        \<and> (\<forall>s. is_decimal_numeral (i + 1) s = (s = number_toString (i + 1)))"
    using renderTodoList_items [of default_localize ?a ?w] by (rule conjunct2)
  then have "1 < length ?a \<longrightarrow>
        todoListContainer_children (renderTodoList default_localize ?a ?w) ! 1 =
          Element [''todo-item''] []
            [Element [''todo-status-icon'', ''codicon'', getStatusIconClass (status (?a ! 1))]
                     (getStatusIconColor (status (?a ! 1))) [],
             Element [''todo-content''] []
               [Element [''todo-title''] []
                  [Text (number_toString (1 + 1) @ ''. '' @ title (?a ! 1))]]]
        \<and> (\<forall>s. is_decimal_numeral (1 + 1) s = (s = number_toString (1 + 1)))"
    by (rule spec)
  then have a1: "todoListContainer_children (renderTodoList default_localize ?a ?w) ! 1 =
       Element [''todo-item''] []
         [Element [''todo-status-icon'', ''codicon'', ''codicon-record'']
                  ''var(--vscode-charts-blue)'' [],
          Element [''todo-content''] []
            [Element [''todo-title''] [] [Text ''2. Review'']]]"
    using n2' s by simp
  have "\<forall>i < length ?b.
        todoListContainer_children (renderTodoList default_localize ?b ?w) ! i =
          Element [''todo-item''] []
            [Element [''todo-status-icon'', ''codicon'', getStatusIconClass (status (?b ! i))]
                     (getStatusIconColor (status (?b ! i))) [],
             Element [''todo-content''] []
               [Element [''todo-title''] []
                  [Text (number_toString (i + 1) @ ''. '' @ title (?b ! i))]]]
        \<and> (\<forall>s. is_decimal_numeral (i + 1) s = (s = number_toString (i + 1)))"
    using renderTodoList_items [of default_localize ?b ?w] by (rule conjunct2)
  then have "11 < length ?b \<longrightarrow>
        todoListContainer_children (renderTodoList default_localize ?b ?w) ! 11 =
          Element [''todo-item''] []
            [Element [''todo-status-icon'', ''codicon'', getStatusIconClass (status (?b ! 11))]
                     (getStatusIconColor (status (?b ! 11))) [],
             Element [''todo-content''] []
               [Element [''todo-title''] []
                  [Text (number_toString (11 + 1) @ ''. '' @ title (?b ! 11))]]]
        \<and> (\<forall>s. is_decimal_numeral (11 + 1) s = (s = number_toString (11 + 1)))"
    by (rule spec)
  then have b11: "todoListContainer_children (renderTodoList default_localize ?b ?w) ! 11 =
       Element [''todo-item''] []
         [Element [''todo-status-icon'', ''codicon'', ''codicon-circle-large-outline'']
                  ''var(--vscode-foreground)'' [],
          Element [''todo-content''] []
            [Element [''todo-title''] [] [Text ''12. Review'']]]"
    and pin: "\<forall>s. is_decimal_numeral 12 s = (s = ''12'')"
    using n12 s by simp_all
  show ?thesis
    using a a1 b11 pin by simp
qed

text \<open>
  C5. \<open>renderTodoList\<close> empties the list container before it appends the new items, so
  the result does not depend on the items rendered before, and rendering the same list twice
  in a row gives the same state, with the same number of items and the same item nodes, as
  rendering it once.
\<close>

theorem renderTodoList_idempotent:
  "renderTodoList loc todoList (renderTodoList loc todoList w) = renderTodoList loc todoList w
   \<and> renderTodoList loc todoList (w\<lparr>todoListContainer_children := old\<rparr>) = renderTodoList loc todoList w
   \<and> todoListContainer_children (renderTodoList loc todoList (renderTodoList loc todoList w))
       = todoListContainer_children (renderTodoList loc todoList w)
   \<and> length (todoListContainer_children (renderTodoList loc todoList (renderTodoList loc todoList w)))
       = length todoList"
  by (simp add: renderTodoList_def Let_def forEach_todo_length split: option.split)



section \<open>Expanding and collapsing\<close>

text \<open>
  C6. \<open>toggleExpanded\<close> flips the flag whatever the state. From any state the widget can
  be in, an even number of toggles gives back the flag, the list body's \<open>display\<close> and the
  \<open>aria-expanded\<close> attribute as they were, and an odd number inverts all three.
\<close>

theorem toggleExpanded_parity:
  assumes "reachable loc w"
  shows "isExpanded ((toggleExpanded ^^ n) w) = (if even n then isExpanded w else \<not> isExpanded w)
    \<and> (todoListContainer_display ((toggleExpanded ^^ n) w) \<noteq> ''none'')
        = (if even n then todoListContainer_display w \<noteq> ''none''
           else \<not> (todoListContainer_display w \<noteq> ''none''))
    \<and> todoListContainer_display ((toggleExpanded ^^ n) w)
        = (if even n then todoListContainer_display w
           else if todoListContainer_display w = ''none'' then ''block'' else ''none'')
    \<and> expandoElement_ariaExpanded ((toggleExpanded ^^ n) w)
        = (if even n then expandoElement_ariaExpanded w
           else if expandoElement_ariaExpanded w = ''true'' then ''false'' else ''true'')"
proof -
  have inv: "todoListContainer_display w = (if isExpanded w then ''block'' else ''none'')"
            "expandoElement_ariaExpanded w = boolean_toString (isExpanded w)"
    using reachable_invariant [OF assms] by simp_all
  have view: "todoListContainer_display ((toggleExpanded ^^ n) w)
                = (if isExpanded ((toggleExpanded ^^ n) w) then ''block'' else ''none'')"
             "expandoElement_ariaExpanded ((toggleExpanded ^^ n) w)
                = boolean_toString (isExpanded ((toggleExpanded ^^ n) w))"
    using toggleExpanded_funpow_view [OF inv] by simp_all
  show ?thesis
    unfolding view toggleExpanded_funpow_flag
    by (simp add: inv boolean_toString_def)
qed

text \<open>Two and three toggles of the widget as constructed (expanded).\<close>

theorem toggleExpanded_parity_witness:
  "reachable default_localize (createChatTodoWidget default_localize Map.empty)
   \<and> isExpanded ((toggleExpanded ^^ 2) (createChatTodoWidget default_localize Map.empty)) = True
   \<and> todoListContainer_display ((toggleExpanded ^^ 2) (createChatTodoWidget default_localize Map.empty)) = ''block''
   \<and> expandoElement_ariaExpanded ((toggleExpanded ^^ 2) (createChatTodoWidget default_localize Map.empty)) = ''true''
   \<and> isExpanded ((toggleExpanded ^^ 3) (createChatTodoWidget default_localize Map.empty)) = False
   \<and> todoListContainer_display ((toggleExpanded ^^ 3) (createChatTodoWidget default_localize Map.empty)) = ''none''
   \<and> expandoElement_ariaExpanded ((toggleExpanded ^^ 3) (createChatTodoWidget default_localize Map.empty)) = ''false''"
proof -
  have r: "reachable default_localize (createChatTodoWidget default_localize Map.empty)"
    by (rule r_create)
  have c: "isExpanded (createChatTodoWidget default_localize Map.empty) = True"
          "todoListContainer_display (createChatTodoWidget default_localize Map.empty) = ''block''"
          "expandoElement_ariaExpanded (createChatTodoWidget default_localize Map.empty) = ''true''"
    by (simp_all add: createChatTodoWidget_def)
  show ?thesis
    using r toggleExpanded_parity [OF r, of 2] toggleExpanded_parity [OF r, of 3]
    by (simp add: c)
qed

text \<open>
  C8. \<open>toggleExpanded\<close> leaves \<open>currentSessionId\<close> and the storage as they were and does
  not read the storage (with any other storage it does the same). Of the view it changes
  the flag, the chevron classes of the expand icon, the \<open>aria-expanded\<close> attribute and the
  list body's \<open>display\<close>, and nothing else; then it fires one height change, whose
  listeners find the state after the change.
\<close>

theorem toggleExpanded_frame:
  "currentSessionId (toggleExpanded w) = currentSessionId w
   \<and> todoListStorage (toggleExpanded w) = todoListStorage w
   \<and> toggleExpanded (w\<lparr>todoListStorage := storage\<rparr>) = (toggleExpanded w)\<lparr>todoListStorage := storage\<rparr>
   \<and> domNode_display (toggleExpanded w) = domNode_display w
   \<and> clearButtonContainer_display (toggleExpanded w) = clearButtonContainer_display w
   \<and> todoListContainer_children (toggleExpanded w) = todoListContainer_children w
   \<and> titleElement_textContent (toggleExpanded w) = titleElement_textContent w
   \<and> isExpanded (toggleExpanded w) = (\<not> isExpanded w)
   \<and> expandoElement_ariaExpanded (toggleExpanded w) = boolean_toString (\<not> isExpanded w)
   \<and> todoListContainer_display (toggleExpanded w) = (if isExpanded w then ''none'' else ''block'')
   \<and> (case expandIcon_classList (toggleExpanded w) of
         None \<Rightarrow> expandIcon_classList w = None
       | Some cs \<Rightarrow> expandIcon_classList w \<noteq> None
           \<and> (''codicon-chevron-down'' \<in> set cs) = (\<not> isExpanded w)
           \<and> (''codicon-chevron-right'' \<in> set cs) = isExpanded w)
   \<and> onDidChangeHeight_fired (toggleExpanded w)
        = onDidChangeHeight_fired w @ [observe (toggleExpanded w)]"
  by (simp add: toggleExpanded_def fire_def observe_def Let_def split: option.split)

section \<open>The height getter\<close>

text \<open>
  C9. The \<open>height\<close> getter only computes a number: 0 when the root node's \<open>display\<close> is
  \<open>none\<close>, and otherwise the \<open>offsetHeight\<close> the host's layout reports for the root
  node. The host reports a non-negative integer, so the result is one.
\<close>

theorem height_value:
  "height offsetHeight w = (if domNode_display w = ''none'' then 0 else offsetHeight)
   \<and> (0 \<le> offsetHeight \<longrightarrow> 0 \<le> height offsetHeight w)
   \<and> (domNode_display w = ''none'' \<longrightarrow> height offsetHeight w = 0)
   \<and> (domNode_display w \<noteq> ''none'' \<longrightarrow> height offsetHeight w = offsetHeight)"
  by (simp add: height_def)

text \<open>
  The widget as constructed is hidden and has height 0; with the one todo of session
  \<open>S1\<close> it is shown and has the height the layout reports, here 120.
\<close>

theorem height_value_witness:
  "(0::int) \<le> 120
   \<and> domNode_display (createChatTodoWidget default_localize Map.empty) = ''none''
   \<and> height 120 (createChatTodoWidget default_localize Map.empty) = 0
   \<and> domNode_display (updateSessionId default_localize (Some ''S1'')
        (createChatTodoWidget default_localize
           [''S1'' \<mapsto> [\<lparr>title = ''Review'', status = ''in-progress''\<rparr>]])) \<noteq> ''none''
   \<and> height 120 (updateSessionId default_localize (Some ''S1'')
        (createChatTodoWidget default_localize
           [''S1'' \<mapsto> [\<lparr>title = ''Review'', status = ''in-progress''\<rparr>]])) = 120"
proof -
  have a: "domNode_display (createChatTodoWidget default_localize Map.empty) = ''none''"
    by (simp add: createChatTodoWidget_def)
  have b: "domNode_display (updateSessionId default_localize (Some ''S1'')
        (createChatTodoWidget default_localize
           [''S1'' \<mapsto> [\<lparr>title = ''Review'', status = ''in-progress''\<rparr>]])) = ''block''"
    by (simp add: updateSessionId_def updateTodoDisplay_displays createChatTodoWidget_def getTodoList_def)
  show ?thesis
    using height_value [of 120 "createChatTodoWidget default_localize Map.empty"]
      height_value [of 120 "updateSessionId default_localize (Some ''S1'')
        (createChatTodoWidget default_localize
           [''S1'' \<mapsto> [\<lparr>title = ''Review'', status = ''in-progress''\<rparr>]])"]
    by (simp add: a b)
qed

end
